theory Spec2Isabelle
  imports Main "HOL-Library.AList"
begin

section \<open>Python values\<close>

text \<open>
  The encrypted-PHI data model lives in \<^verbatim>\<open>app/models/base.py\<close> and \<^verbatim>\<open>app/models/patient.py\<close>,
  the log sanitiser and the audit logger in \<^verbatim>\<open>app/utils/logging.py\<close>. Python values that
  these functions handle are embedded as a datatype. A \<^verbatim>\<open>str\<close> and a \<^verbatim>\<open>bytes\<close> value are
  both a \<open>string\<close>; \<^verbatim>\<open>.encode()\<close> and \<^verbatim>\<open>.decode()\<close>, which take one to the other and may
  raise, are functions of the library below. A \<^verbatim>\<open>dict\<close> with string keys is an association
  list in insertion order.
\<close>

record datetime =
  year :: nat
  month :: nat
  day :: nat
  hour :: nat
  minute :: nat
  second :: nat
  microsecond :: nat

datatype pyval =
    PNone
  | PBool bool
  | PInt int
  | PStr string
  | PDateTime datetime
  | PList "pyval list"
  | PDict "(string \<times> pyval) list"

type_synonym pydict = "(string \<times> pyval) list"

text \<open>Exceptions the modelled code raises; each carries the text the source gives it
  (\<open>AttributeError\<close> carries the name of the attribute that rejects the assignment).\<close>

datatype py_exception =
    ValueError string
  | AttributeError string
  | TypeError string

text \<open>\<^verbatim>\<open>type(e).__name__\<close>, the only part of an exception the codec prints.\<close>

fun exc_name :: "py_exception \<Rightarrow> string" where
  "exc_name (ValueError _) = ''ValueError''"
| "exc_name (AttributeError _) = ''AttributeError''"
| "exc_name (TypeError _) = ''TypeError''"

text \<open>Truth value testing, as \<^verbatim>\<open>if not data\<close> and \<^verbatim>\<open>if user_id\<close> apply it.\<close>

fun truthy :: "pyval \<Rightarrow> bool" where
  "truthy PNone = False"
| "truthy (PBool b) = b"
| "truthy (PInt i) = (i \<noteq> 0)"
| "truthy (PStr s) = (s \<noteq> [])"
| "truthy (PDateTime _) = True"
| "truthy (PList xs) = (xs \<noteq> [])"
| "truthy (PDict d) = (d \<noteq> [])"

definition opt_str :: "string option \<Rightarrow> pyval" where
  "opt_str s = (case s of None \<Rightarrow> PNone | Some x \<Rightarrow> PStr x)"

text \<open>\<^verbatim>\<open>str.lower()\<close> on the ASCII letters. Every name of the deny-list below is ASCII and
  has no letter that a non-ASCII character lowers to, so membership of \<open>lower key\<close> in the
  deny-list is decided by these 26 letters.\<close>

definition lower_char :: "char \<Rightarrow> char" where
  "lower_char c =
     (case map_of (zip ''ABCDEFGHIJKLMNOPQRSTUVWXYZ'' ''abcdefghijklmnopqrstuvwxyz'') c of
        None \<Rightarrow> c
      | Some l \<Rightarrow> l)"

definition lower :: "string \<Rightarrow> string" where
  "lower s = map lower_char s"

text \<open>\<^verbatim>\<open>datetime.isoformat()\<close> of a naive datetime:
  \<^verbatim>\<open>YYYY-MM-DDTHH:MM:SS\<close>, followed by \<^verbatim>\<open>.ffffff\<close> when the microsecond is not zero.\<close>

definition digit :: "nat \<Rightarrow> char" where
  "digit n = ''0123456789'' ! (n mod 10)"

fun zpad :: "nat \<Rightarrow> nat \<Rightarrow> string" where
  "zpad 0 n = []"
| "zpad (Suc w) n = zpad w (n div 10) @ [digit n]"

definition isoformat :: "datetime \<Rightarrow> string" where
  "isoformat dt =
     zpad 4 (year dt) @ ''-'' @ zpad 2 (month dt) @ ''-'' @ zpad 2 (day dt) @ ''T'' @
     zpad 2 (hour dt) @ '':'' @ zpad 2 (minute dt) @ '':'' @ zpad 2 (second dt) @
     (if microsecond dt = 0 then [] else ''.'' @ zpad 6 (microsecond dt))"

section \<open>The libraries the code calls\<close>

text \<open>
  \<^verbatim>\<open>str.encode\<close>, \<^verbatim>\<open>bytes.decode\<close>, \<^verbatim>\<open>cryptography.fernet.Fernet\<close>, \<^verbatim>\<open>str()\<close> of a value
  that is not a string, \<^verbatim>\<open>json.dumps\<close> and the attributes that Python and the ORM give to
  every mapped instance are not code of the repository; the model takes them as a
  parameter.
  \<^item> \<open>str_encode s\<close> is \<^verbatim>\<open>s.encode()\<close>; \<open>None\<close> when it raises \<^verbatim>\<open>UnicodeEncodeError\<close>.
  \<^item> \<open>bytes_decode b\<close> is \<^verbatim>\<open>b.decode()\<close>; \<open>None\<close> when it raises \<^verbatim>\<open>UnicodeDecodeError\<close>.
  \<^item> \<open>fernet_encrypt k entropy data\<close> is \<^verbatim>\<open>Fernet(key).encrypt(data)\<close> for a key that decodes to
    the 32 bytes \<open>k\<close>, where \<open>entropy\<close> is what the call draws from the random source and the
    clock (the token embeds an IV and a timestamp).
  \<^item> \<open>fernet_decrypt k token\<close> is \<^verbatim>\<open>Fernet(key).decrypt(token)\<close> for such a key; \<open>None\<close> when the
    call raises \<^verbatim>\<open>InvalidToken\<close>.
  \<^item> \<open>str_of v\<close> is \<^verbatim>\<open>str(v)\<close> for a value that is not a string.
  \<^item> \<open>json_dumps v\<close> is \<^verbatim>\<open>json.dumps(v)\<close>; \<open>None\<close> when it raises \<^verbatim>\<open>TypeError\<close>.
  \<^item> \<open>json_renderer v\<close> is what \<^verbatim>\<open>structlog.processors.JSONRenderer()\<close> returns for the event
    dictionary \<open>v\<close>.
  \<^item> \<open>object_attr name\<close>: every mapped instance has an attribute of this name that no class
    body of the source binds (\<^verbatim>\<open>__class__\<close>, \<^verbatim>\<open>__dict__\<close>, \<^verbatim>\<open>metadata\<close>,
    \<^verbatim>\<open>_sa_instance_state\<close>, ...).
  \<^item> \<open>object_setattr name v m\<close> is what \<^verbatim>\<open>setattr(self, name, v)\<close> does for such a name, and
    for a \<^verbatim>\<open>relationship()\<close> attribute, on an instance whose attribute values are \<open>m\<close>: the
    exception raised, or the attribute values afterwards.
\<close>

record library =
  str_encode :: "string \<Rightarrow> string option"
  bytes_decode :: "string \<Rightarrow> string option"
  fernet_encrypt :: "string \<Rightarrow> string \<Rightarrow> string \<Rightarrow> string"
  fernet_decrypt :: "string \<Rightarrow> string \<Rightarrow> string option"
  str_of :: "pyval \<Rightarrow> string"
  json_dumps :: "pyval \<Rightarrow> string option"
  json_renderer :: "pyval \<Rightarrow> string"
  object_attr :: "string \<Rightarrow> bool"
  object_setattr ::
    "string \<Rightarrow> pyval \<Rightarrow> (string \<rightharpoonup> pyval) \<Rightarrow> py_exception + (string \<rightharpoonup> pyval)"

definition py_str :: "library \<Rightarrow> pyval \<Rightarrow> string" where
  "py_str L v = (case v of PStr s \<Rightarrow> s | _ \<Rightarrow> str_of L v)"

subsection \<open>The key that \<^verbatim>\<open>Fernet(key)\<close> accepts\<close>

text \<open>
  \<^verbatim>\<open>
  def __init__(self, key, backend=None):
      try:
          key = base64.urlsafe_b64decode(key)
      except binascii.Error as exc:
          raise ValueError("Fernet key must be 32 url-safe base64-encoded bytes.") from exc
      if len(key) != 32:
          raise ValueError("Fernet key must be 32 url-safe base64-encoded bytes.")
  \<close>
  \<^verbatim>\<open>urlsafe_b64decode\<close> reads \<^verbatim>\<open>-\<close> and \<^verbatim>\<open>_\<close> as \<^verbatim>\<open>+\<close> and \<^verbatim>\<open>/\<close> and decodes as
  \<^verbatim>\<open>binascii.a2b_base64\<close> does when not strict. That decoder skips every character outside
  the alphabet; it skips a \<^verbatim>\<open>=\<close> unless two or three characters of the current group of four
  have been read and the \<^verbatim>\<open>=\<close> read since the last character complete the group, where it
  stops; it emits a byte with the second, third and fourth character of a group; and it
  fails when the input ends inside a group. \<open>a2b_base64 input quad_pos pads leftchar out\<close>
  carries the position in the group, the \<^verbatim>\<open>=\<close> counted, the bits left over and the bytes
  emitted.
\<close>

definition b64_val :: "char \<Rightarrow> nat option" where
  "b64_val c =
     map_of (zip ''ABCDEFGHIJKLMNOPQRSTUVWXYZabcdefghijklmnopqrstuvwxyz0123456789+/-_''
                 ([0..<64] @ [62, 63])) c"

fun a2b_base64 :: "string \<Rightarrow> nat \<Rightarrow> nat \<Rightarrow> nat \<Rightarrow> string \<Rightarrow> string option" where
  "a2b_base64 [] quad_pos pads leftchar out = (if quad_pos = 0 then Some out else None)"
| "a2b_base64 (c # cs) quad_pos pads leftchar out =
     (if c = CHR ''='' then
        (if 2 \<le> quad_pos \<and> 4 \<le> quad_pos + (pads + 1) then Some out
         else a2b_base64 cs quad_pos (if 2 \<le> quad_pos then pads + 1 else pads) leftchar out)
      else
        (case b64_val c of
           None \<Rightarrow> a2b_base64 cs quad_pos pads leftchar out
         | Some v \<Rightarrow>
             if quad_pos = 0 then a2b_base64 cs 1 0 v out
             else if quad_pos = 1 then
               a2b_base64 cs 2 0 (v mod 16) (out @ [char_of (leftchar * 4 + v div 16)])
             else if quad_pos = 2 then
               a2b_base64 cs 3 0 (v mod 4) (out @ [char_of (leftchar * 16 + v div 4)])
             else a2b_base64 cs 0 0 0 (out @ [char_of (leftchar * 64 + v)])))"

definition urlsafe_b64decode :: "string \<Rightarrow> string option" where
  "urlsafe_b64decode s = a2b_base64 s 0 0 0 []"

text \<open>\<open>Fernet_key key\<close>: the 32 bytes of the key when the constructor returns, \<open>None\<close> when it
  raises \<^verbatim>\<open>ValueError\<close>.\<close>

definition Fernet_key :: "string \<Rightarrow> string option" where
  "Fernet_key key =
     (case urlsafe_b64decode key of
        None \<Rightarrow> None
      | Some k \<Rightarrow> if length k = 32 then Some k else None)"

text \<open>What the codec relies on from the libraries: a string that encodes decodes back to
  itself; and for a key of 32 bytes, a token is non-empty text that encodes to the same
  token, and Fernet decrypts, under the key, every token it made under that key.\<close>

definition codec_libraries :: "library \<Rightarrow> bool" where
  "codec_libraries L \<longleftrightarrow>
     (\<forall>s b. str_encode L s = Some b \<longrightarrow> bytes_decode L b = Some s) \<and>
     (\<forall>k r b. length k = 32 \<longrightarrow>
        (\<exists>t. bytes_decode L (fernet_encrypt L k r b) = Some t \<and> t \<noteq> [] \<and>
             str_encode L t = Some (fernet_encrypt L k r b))) \<and>
     (\<forall>k r b. length k = 32 \<longrightarrow> fernet_decrypt L k (fernet_encrypt L k r b) = Some b)"

text \<open>A stand-in library on which the theorems below are instantiated at concrete inputs.
  Its text is ASCII, which encodes to itself. It tags a token with the key bytes that made
  it and rejects any token whose tag is not that of the key.\<close>

definition demo_library :: library where
  "demo_library =
     \<lparr> str_encode = Some,
       bytes_decode = Some,
       fernet_encrypt = (\<lambda>k r b. ''gAAAAA'' @ k @ b),
       fernet_decrypt = (\<lambda>k t. if take (6 + length k) t = ''gAAAAA'' @ k
                                then Some (drop (6 + length k) t) else None),
       str_of = (\<lambda>v. ''<object>''),
       json_dumps = (\<lambda>v. Some ''{...}''),
       json_renderer = (\<lambda>v. ''{...}''),
       object_attr = (\<lambda>name. name \<in> set [''__class__'', ''__dict__'', ''metadata'', ''registry'',
                                           ''_sa_instance_state'']),
       object_setattr = (\<lambda>name v m. Inl (TypeError name)) \<rparr>"

text \<open>Keys: two that encode 32 bytes each; \<open>twin_key\<close>, which differs from \<open>demo_key\<close> in two
  bits that the decoder drops, so that both decode to the same bytes; the default of
  \<^verbatim>\<open>ENCRYPTION_KEY\<close> in \<^verbatim>\<open>app/config.py\<close>; and a key as \<^verbatim>\<open>setup_env.py\<close> writes it, the
  43 characters of \<^verbatim>\<open>secrets.token_urlsafe(32)\<close>, which carry no padding.\<close>

definition demo_key :: string where
  "demo_key = ''MDEyMzQ1Njc4OWFiY2RlZjAxMjM0NTY3ODlhYmNkZWY=''"

definition other_key :: string where
  "other_key = ''ZmVkY2JhOTg3NjU0MzIxMGZlZGNiYTk4NzY1NDMyMTA=''"

definition twin_key :: string where
  "twin_key = ''MDEyMzQ1Njc4OWFiY2RlZjAxMjM0NTY3ODlhYmNkZWZ=''"

definition default_key :: string where
  "default_key = ''dev-encryption-key-change-in-production''"

definition unpadded_key :: string where
  "unpadded_key = ''MDEyMzQ1Njc4OWFiY2RlZjAxMjM0NTY3ODlhYmNkZWY''"

section \<open>Cryptographic field codec (\<^verbatim>\<open>BaseModel.encrypt_phi\<close>, \<^verbatim>\<open>BaseModel.decrypt_phi\<close>)\<close>

text \<open>
  \<^verbatim>\<open>
  def encrypt_phi(cls, data: str) -> str:
      if not data:
          return data
      try:
          cipher_suite = Fernet(settings.ENCRYPTION_KEY.encode())
          encrypted_data = cipher_suite.encrypt(data.encode())
          return encrypted_data.decode()
      except Exception as e:
          print(f"Encryption error: {type(e).__name__}")
          raise ValueError("Failed to encrypt sensitive data")
  \<close>
  \<open>key\<close> is \<^verbatim>\<open>settings.ENCRYPTION_KEY\<close>. Whatever is raised inside the \<^verbatim>\<open>try\<close> leaves as the
  same \<^verbatim>\<open>ValueError\<close>: the key or the data not encoding, the key refused by \<^verbatim>\<open>Fernet\<close>, the
  token not decoding, and the \<^verbatim>\<open>AttributeError\<close> of a truthy value that is not a string and
  so has no \<^verbatim>\<open>encode\<close>. The line printed to standard output is not part of the model.
  \<^verbatim>\<open>decrypt_phi\<close> has the same form, with \<^verbatim>\<open>cipher_suite.decrypt(encrypted_data.encode())\<close>
  and the message \<^verbatim>\<open>Failed to decrypt sensitive data\<close>.
\<close>

definition encrypt_phi :: "library \<Rightarrow> string \<Rightarrow> string \<Rightarrow> pyval \<Rightarrow> py_exception + pyval" where
  "encrypt_phi L key r data =
     (if \<not> truthy data then Inr data
      else (case data of
              PStr s \<Rightarrow>
                (case Option.bind (str_encode L key) (\<lambda>kb.
                      Option.bind (Fernet_key kb) (\<lambda>k.
                      Option.bind (str_encode L s) (\<lambda>b.
                      bytes_decode L (fernet_encrypt L k r b)))) of
                   Some t \<Rightarrow> Inr (PStr t)
                 | None \<Rightarrow> Inl (ValueError ''Failed to encrypt sensitive data''))
            | _ \<Rightarrow> Inl (ValueError ''Failed to encrypt sensitive data'')))"

definition decrypt_phi :: "library \<Rightarrow> string \<Rightarrow> pyval \<Rightarrow> py_exception + pyval" where
  "decrypt_phi L key encrypted_data =
     (if \<not> truthy encrypted_data then Inr encrypted_data
      else (case encrypted_data of
              PStr t \<Rightarrow>
                (case Option.bind (str_encode L key) (\<lambda>kb.
                      Option.bind (Fernet_key kb) (\<lambda>k.
                      Option.bind (str_encode L t) (\<lambda>tb.
                      Option.bind (fernet_decrypt L k tb) (\<lambda>b.
                      bytes_decode L b)))) of
                   Some s \<Rightarrow> Inr (PStr s)
                 | None \<Rightarrow> Inl (ValueError ''Failed to decrypt sensitive data''))
            | _ \<Rightarrow> Inl (ValueError ''Failed to decrypt sensitive data'')))"

section \<open>Entities\<close>

text \<open>
  A mapped class binds each attribute name once. The model keeps the names, those of the
  class body first and the inherited ones after them, together with what each is bound
  to: a mapped \<^verbatim>\<open>Column\<close>, an \<^verbatim>\<open>EncryptedField\<close> descriptor, a \<^verbatim>\<open>hybrid_property\<close> with no
  setter (computed, read-only), a \<^verbatim>\<open>relationship()\<close>, or anything else (a method, a class
  constant), which an assignment on the instance shadows. A computed property carries
  the names of the encrypted attributes its getter reads outside any \<^verbatim>\<open>try\<close>, in the
  order it reads them. A name that a subclass rebinds appears once, with the binding of
  the subclass. The names every Python object has and those the ORM adds are not listed:
  \<open>object_attr\<close> of the library tells them. \<open>cls_phi_fields\<close> is the class attribute
  \<^verbatim>\<open>_phi_fields\<close>, \<open>None\<close> on a class that has none. An instance carries the values assigned
  to its attributes; a column never assigned reads as \<^verbatim>\<open>None\<close>.
\<close>

datatype attr_kind = Column | Encrypted | Computed "string list" | Relationship | Plain

record model_class =
  tablename :: string
  class_attrs :: "(string \<times> attr_kind) list"
  cls_phi_fields :: "string list option"

record entity =
  cls :: model_class
  attrs :: "string \<rightharpoonup> pyval"

definition kind_of :: "model_class \<Rightarrow> string \<Rightarrow> attr_kind option" where
  "kind_of c name = map_of (class_attrs c) name"

text \<open>\<^verbatim>\<open>self.__table__.columns\<close>, by name.\<close>

definition column_names :: "model_class \<Rightarrow> string list" where
  "column_names c = map fst (filter (\<lambda>(n, k). k = Column) (class_attrs c))"

text \<open>\<^verbatim>\<open>getattr(obj, name, None)\<close> on a stored attribute, and the plain assignment to one.\<close>

definition getattr_default :: "entity \<Rightarrow> string \<Rightarrow> pyval" where
  "getattr_default e name = (case attrs e name of None \<Rightarrow> PNone | Some v \<Rightarrow> v)"

definition store :: "entity \<Rightarrow> string \<Rightarrow> pyval \<Rightarrow> entity" where
  "store e name v = e\<lparr>attrs := (attrs e)(name \<mapsto> v)\<rparr>"

subsection \<open>Encrypted-field descriptor (\<^verbatim>\<open>EncryptedField\<close>)\<close>

text \<open>
  \<^verbatim>\<open>
  def __init__(self, field_name):
      self.field_name = field_name
      self.encrypted_field_name = f"{field_name}_encrypted"
  def __get__(self, instance, owner):
      if instance is None:
          return self
      encrypted_value = getattr(instance, self.encrypted_field_name, None)
      if encrypted_value:
          return BaseModel.decrypt_phi(encrypted_value)
      return None
  def __set__(self, instance, value):
      if value is not None:
          encrypted_value = BaseModel.encrypt_phi(str(value))
          setattr(instance, self.encrypted_field_name, encrypted_value)
      else:
          setattr(instance, self.encrypted_field_name, None)
  \<close>
  A descriptor is given by its field name. The hidden slot is a stored attribute (in the
  source, a \<^verbatim>\<open>Text\<close> column of the same class). Access through the class, where
  \<^verbatim>\<open>instance is None\<close>, is not part of the model.
\<close>

definition encrypted_field_name :: "string \<Rightarrow> string" where
  "encrypted_field_name field_name = field_name @ ''_encrypted''"

definition EncryptedField_get :: "library \<Rightarrow> string \<Rightarrow> entity \<Rightarrow> string \<Rightarrow> py_exception + pyval" where
  "EncryptedField_get L key instance field_name =
     (let encrypted_value = getattr_default instance (encrypted_field_name field_name)
      in if truthy encrypted_value then decrypt_phi L key encrypted_value else Inr PNone)"

definition EncryptedField_set ::
  "library \<Rightarrow> string \<Rightarrow> string \<Rightarrow> entity \<Rightarrow> string \<Rightarrow> pyval \<Rightarrow> py_exception + entity" where
  "EncryptedField_set L key r instance field_name v =
     (if v \<noteq> PNone then
        (case encrypt_phi L key r (PStr (py_str L v)) of
           Inl ex \<Rightarrow> Inl ex
         | Inr encrypted_value \<Rightarrow>
             Inr (store instance (encrypted_field_name field_name) encrypted_value))
      else Inr (store instance (encrypted_field_name field_name) PNone))"

subsection \<open>Attribute access on an instance\<close>



definition object_assign :: "library \<Rightarrow> entity \<Rightarrow> string \<Rightarrow> pyval \<Rightarrow> py_exception + entity" where
  "object_assign L e name v =
     (case object_setattr L name v (attrs e) of
        Inl ex \<Rightarrow> Inl ex
      | Inr m \<Rightarrow> Inr (e\<lparr>attrs := m\<rparr>))"

definition setattr ::
  "library \<Rightarrow> string \<Rightarrow> string \<Rightarrow> entity \<Rightarrow> string \<Rightarrow> pyval \<Rightarrow> py_exception + entity" where
  "setattr L key r e name v =
     (case kind_of (cls e) name of
        Some Encrypted \<Rightarrow> EncryptedField_set L key r e name v
      | Some (Computed reads) \<Rightarrow> Inl (AttributeError name)
      | Some Relationship \<Rightarrow> object_assign L e name v
      | Some Column \<Rightarrow> Inr (store e name v)
      | Some Plain \<Rightarrow> Inr (store e name v)
      | None \<Rightarrow> if object_attr L name then object_assign L e name v
                else Inr (store e name v))"

subsection \<open>Persistent record base (\<^verbatim>\<open>BaseModel\<close>)\<close>

text \<open>
  \<^verbatim>\<open>
  def to_dict(self, include_phi: bool = False) -> dict:
      result = {}
      for column in self.__table__.columns:
          value = getattr(self, column.name)
          if isinstance(value, datetime):
              value = value.isoformat()
          result[column.name] = value
      if not include_phi:
          phi_fields = getattr(self, '_phi_fields', [])
          for field in phi_fields:
              if field in result:
                  result[field] = "[REDACTED]"
      return result
  \<close>
  \<^verbatim>\<open>_phi_fields\<close> is read from the class: no instance is given an attribute of that name
  of its own.
\<close>

definition column_value :: "entity \<Rightarrow> string \<Rightarrow> pyval" where
  "column_value e column =
     (case getattr_default e column of PDateTime dt \<Rightarrow> PStr (isoformat dt) | v \<Rightarrow> v)"

definition redact_fields :: "string list \<Rightarrow> pydict \<Rightarrow> pydict" where
  "redact_fields names result =
     fold (\<lambda>field result.
             if map_of result field \<noteq> None then AList.update field (PStr ''[REDACTED]'') result
             else result)
          names result"

definition to_dict :: "entity \<Rightarrow> bool \<Rightarrow> pydict" where
  "to_dict e include_phi =
     (let result = fold (\<lambda>column result. AList.update column (column_value e column) result)
                        (column_names (cls e)) []
      in if \<not> include_phi
         then redact_fields (case cls_phi_fields (cls e) of None \<Rightarrow> [] | Some fs \<Rightarrow> fs) result
         else result)"


definition touch ::
  "library \<Rightarrow> string \<Rightarrow> (string \<Rightarrow> string) \<Rightarrow> datetime \<Rightarrow> string option \<Rightarrow> entity
     \<Rightarrow> py_exception + entity" where
  "touch L key ent now user_id e =
     (case setattr L key (ent ''updated_at'') e ''updated_at'' (PDateTime now) of
        Inl ex \<Rightarrow> Inl ex
      | Inr e1 \<Rightarrow>
          if truthy (opt_str user_id)
          then setattr L key (ent ''updated_by'') e1 ''updated_by'' (opt_str user_id)
          else Inr e1)"


text \<open>
  \<^verbatim>\<open>
  def soft_delete(self, user_id: Optional[str] = None):
      self.is_active = False
      self.updated_at = datetime.utcnow()
      if user_id:
          self.updated_by = user_id
  \<close>
\<close>

definition soft_delete ::
  "library \<Rightarrow> string \<Rightarrow> (string \<Rightarrow> string) \<Rightarrow> datetime \<Rightarrow> entity \<Rightarrow> string option
     \<Rightarrow> py_exception + entity" where
  "soft_delete L key ent now e user_id =
     (case setattr L key (ent ''is_active'') e ''is_active'' (PBool False) of
        Inl ex \<Rightarrow> Inl ex
      | Inr e1 \<Rightarrow> touch L key ent now user_id e1)"

subsection \<open>The classes of \<^verbatim>\<open>app/models/patient.py\<close>\<close>

text \<open>\<^verbatim>\<open>Patient(BaseModel, AuditMixin)\<close>: the names of its own body, then those it inherits.
  The table of a class lists the columns of the class before the columns copied from
  its abstract base, which is the order \<^verbatim>\<open>to_dict\<close> walks.\<close>

definition base_columns :: "(string \<times> attr_kind) list" where
  "base_columns =
     [(''id'', Column), (''created_at'', Column), (''updated_at'', Column),
      (''created_by'', Column), (''updated_by'', Column), (''is_active'', Column),
      (''uuid'', Column)]"

definition base_methods :: "(string \<times> attr_kind) list" where
  "base_methods =
     [(''__abstract__'', Plain), (''__init__'', Plain),
      (''encrypt_phi'', Plain), (''decrypt_phi'', Plain), (''to_dict'', Plain),
      (''update_from_dict'', Plain), (''soft_delete'', Plain)]"

definition audit_mixin_methods :: "(string \<times> attr_kind) list" where
  "audit_mixin_methods = [(''log_access'', Plain), (''set_request_context'', Plain)]"

definition Patient :: model_class where
  "Patient =
     \<lparr> tablename = ''patients'',
       class_attrs =
         [(''__tablename__'', Plain),
          (''medical_record_number'', Column),
          (''first_name_encrypted'', Column), (''last_name_encrypted'', Column),
          (''middle_name_encrypted'', Column), (''social_security_number_encrypted'', Column),
          (''date_of_birth_encrypted'', Column),
          (''gender'', Column), (''marital_status'', Column),
          (''phone_encrypted'', Column), (''email_encrypted'', Column),
          (''emergency_contact_encrypted'', Column), (''emergency_phone_encrypted'', Column),
          (''address_line_1_encrypted'', Column), (''address_line_2_encrypted'', Column),
          (''city_encrypted'', Column), (''state_encrypted'', Column),
          (''zip_code_encrypted'', Column), (''country_encrypted'', Column),
          (''preferred_language'', Column), (''race'', Column), (''ethnicity'', Column),
          (''is_vip'', Column), (''is_deceased'', Column), (''deceased_date'', Column),
          (''preferred_communication'', Column), (''allow_sms'', Column),
          (''allow_email'', Column),
          (''financial_class'', Column), (''credit_score'', Column),
          (''payment_preference'', Column),
          (''insurance_policies'', Relationship), (''claims'', Relationship),
          (''bills'', Relationship), (''documents'', Relationship),
          (''_phi_fields'', Plain),
          (''first_name'', Encrypted), (''last_name'', Encrypted), (''middle_name'', Encrypted),
          (''social_security_number'', Encrypted), (''date_of_birth'', Encrypted),
          (''phone'', Encrypted), (''email'', Encrypted), (''emergency_contact'', Encrypted),
          (''emergency_phone'', Encrypted), (''address_line_1'', Encrypted),
          (''address_line_2'', Encrypted), (''city'', Encrypted), (''state'', Encrypted),
          (''zip_code'', Encrypted), (''country'', Encrypted),
          (''full_name'', Computed [''first_name'', ''middle_name'', ''last_name'']),
          (''age'', Computed [''date_of_birth'']),
          (''primary_insurance'', Computed []), (''secondary_insurance'', Computed []),
          (''get_active_insurance_policies'', Plain), (''get_formatted_address'', Plain),
          (''__repr__'', Plain)]
         @ base_columns @ base_methods @ audit_mixin_methods,
       cls_phi_fields = Some
         [''first_name'', ''last_name'', ''middle_name'', ''social_security_number'',
          ''date_of_birth'', ''phone'', ''email'', ''emergency_contact'', ''emergency_phone'',
          ''address_line_1'', ''address_line_2'', ''city'', ''state'', ''zip_code'',
          ''country''] \<rparr>"

section \<open>Log sanitisation and audit events (\<^verbatim>\<open>app/utils/logging.py\<close>)\<close>

text \<open>
  \<^verbatim>\<open>
  def sanitize_log_data(data):
      phi_fields = { 'ssn', ... }
      sanitized = {}
      for key, value in data.items():
          if key.lower() in phi_fields:
              sanitized[key] = "[REDACTED]"
          elif isinstance(value, dict):
              sanitized[key] = sanitize_log_data(value)
          elif isinstance(value, list):
              sanitized[key] = [sanitize_log_data(item) if isinstance(item, dict) else item
                                for item in value]
          else:
              sanitized[key] = value
      return sanitized
  \<close>
  The keys of a dictionary are distinct, so each assignment to \<^verbatim>\<open>sanitized[key]\<close> appends
  a new entry.
\<close>

definition phi_fields :: "string list" where
  "phi_fields =
     [''ssn'', ''social_security_number'', ''social_security'',
      ''phone'', ''phone_number'', ''telephone'',
      ''email'', ''email_address'',
      ''address'', ''address_line_1'', ''address_line_2'',
      ''city'', ''state'', ''zip_code'', ''zipcode'',
      ''first_name'', ''last_name'', ''middle_name'',
      ''date_of_birth'', ''dob'', ''birth_date'',
      ''medical_record_number'', ''mrn'',
      ''patient_id'', ''member_id'', ''subscriber_id'',
      ''policy_number'', ''group_number'']"

fun sanitize_log_data :: "pydict \<Rightarrow> pydict"
  and sanitize_items :: "pyval list \<Rightarrow> pyval list" where
  "sanitize_log_data [] = []"
| "sanitize_log_data ((key, val) # rest) =
     (key,
      if lower key \<in> set phi_fields then PStr ''[REDACTED]''
      else (case val of
              PDict d \<Rightarrow> PDict (sanitize_log_data d)
            | PList xs \<Rightarrow> PList (sanitize_items xs)
            | _ \<Rightarrow> val)) # sanitize_log_data rest"
| "sanitize_items [] = []"
| "sanitize_items (item # rest) =
     (case item of PDict d \<Rightarrow> PDict (sanitize_log_data d) | _ \<Rightarrow> item) # sanitize_items rest"

text \<open>What a sanitised mapping looks like, in the words of the specification: every key
  whose lower-cased name is on the deny-list holds the redaction marker, in the mapping
  itself, in every mapping nested under another key, and in every mapping that is an
  element of a list under another key.\<close>

fun phi_redacted :: "pydict \<Rightarrow> bool"
  and phi_redacted_items :: "pyval list \<Rightarrow> bool" where
  "phi_redacted [] = True"
| "phi_redacted ((key, val) # rest) =
     ((if lower key \<in> set phi_fields then val = PStr ''[REDACTED]''
       else (case val of
               PDict d \<Rightarrow> phi_redacted d
             | PList xs \<Rightarrow> phi_redacted_items xs
             | _ \<Rightarrow> True)) \<and> phi_redacted rest)"
| "phi_redacted_items [] = True"
| "phi_redacted_items (item # rest) =
     ((case item of PDict d \<Rightarrow> phi_redacted d | _ \<Rightarrow> True) \<and> phi_redacted_items rest)"

subsection \<open>What \<^verbatim>\<open>setup_logging\<close> configures\<close>

text \<open>
  \<^verbatim>\<open>app/main.py\<close> calls \<^verbatim>\<open>setup_logging()\<close> when it is imported. The model describes logging
  under that configuration, for a message logged at level \<^verbatim>\<open>INFO\<close>, which the root logger
  (\<^verbatim>\<open>basicConfig(level=INFO)\<close>, \<^verbatim>\<open>DEBUG\<close> in debug mode) and the loggers \<^verbatim>\<open>audit\<close> and
  \<^verbatim>\<open>agent\<close> (\<^verbatim>\<open>setLevel(INFO)\<close>) all enable.

  Four rotating file handlers write to \<^verbatim>\<open>logs/\<close>: \<^verbatim>\<open>app.log\<close> and \<^verbatim>\<open>error.log\<close> (level
  \<^verbatim>\<open>ERROR\<close>, so it takes no \<^verbatim>\<open>INFO\<close> record) on the root logger, \<^verbatim>\<open>audit.log\<close> on the logger
  \<^verbatim>\<open>audit\<close>, \<^verbatim>\<open>agents.log\<close> on the logger \<^verbatim>\<open>agent\<close>. A record of the logger \<open>name\<close> goes to
  the handlers of that logger and of its ancestors in the dotted hierarchy, the nearest
  first. Every file handler has the formatter
  \<^verbatim>\<open>'%(asctime)s - %(name)s - %(levelname)s - %(message)s'\<close>: the line it writes holds the
  time of the record, the name of the logger, the level and the message, and none of the
  fields passed as \<^verbatim>\<open>extra\<close>. The stream handler on standard output persists nothing and is
  not part of the model. \<open>asctime\<close> is the time of the record as the formatter prints it.
\<close>

definition Formatter :: "string \<Rightarrow> string \<Rightarrow> string \<Rightarrow> string \<Rightarrow> string" where
  "Formatter asctime name levelname message =
     asctime @ '' - '' @ name @ '' - '' @ levelname @ '' - '' @ message"

definition descends :: "string \<Rightarrow> string \<Rightarrow> bool" where
  "descends name ancestor \<longleftrightarrow>
     name = ancestor \<or> take (length ancestor + 1) name = ancestor @ ''.''"

definition file_handlers :: "string \<Rightarrow> string list" where
  "file_handlers name =
     (if descends name ''audit'' then [''logs/audit.log''] else []) @
     (if descends name ''agent'' then [''logs/agents.log''] else []) @
     [''logs/app.log'']"

text \<open>\<open>logging_info asctime name message\<close>: the lines that \<^verbatim>\<open>logging.getLogger(name).info(message)\<close>
  persists, each with the file it is appended to.\<close>

definition logging_info :: "string \<Rightarrow> string \<Rightarrow> string \<Rightarrow> (string \<times> string) list" where
  "logging_info asctime name message =
     map (\<lambda>file. (file, Formatter asctime name ''INFO'' message)) (file_handlers name)"

text \<open>
  \<^verbatim>\<open>
  structlog.configure(
      processors=[
          structlog.stdlib.filter_by_level,
          structlog.stdlib.add_logger_name,
          structlog.stdlib.add_log_level,
          structlog.stdlib.PositionalArgumentsFormatter(),
          structlog.processors.TimeStamper(fmt="iso"),
          structlog.processors.StackInfoRenderer(),
          structlog.processors.format_exc_info,
          add_audit_info,
          structlog.processors.JSONRenderer()
      ],
      context_class=dict,
      logger_factory=structlog.stdlib.LoggerFactory(),
      ...
  def add_audit_info(logger, method_name, event_dict):
      event_dict['audit_timestamp'] = datetime.utcnow().isoformat()
      event_dict['application'] = settings.APP_NAME
      event_dict['version'] = settings.APP_VERSION
      if hasattr(event_dict.get('context', {}), 'user_id'):
          event_dict['user_id'] = event_dict['context'].user_id
      return event_dict
  \<close>
  \<^verbatim>\<open>get_logger(name).info(event, **kw)\<close>, for a logger with no bound context, builds the event
  dictionary from the keyword arguments, in their order, and the key \<^verbatim>\<open>event\<close>, and passes
  it through the processors. \<^verbatim>\<open>filter_by_level\<close> lets an \<^verbatim>\<open>INFO\<close> event pass;
  \<^verbatim>\<open>add_logger_name\<close> sets \<^verbatim>\<open>logger\<close>; \<^verbatim>\<open>add_log_level\<close> sets \<^verbatim>\<open>level\<close>;
  \<^verbatim>\<open>TimeStamper(fmt="iso")\<close> sets \<^verbatim>\<open>timestamp\<close> to its own reading of the clock (\<open>stamp\<close>, the
  UTC time in ISO format followed by \<^verbatim>\<open>Z\<close>), replacing a value already there;
  \<^verbatim>\<open>PositionalArgumentsFormatter\<close>, \<^verbatim>\<open>StackInfoRenderer\<close> and \<^verbatim>\<open>format_exc_info\<close> find none of
  their keys and change nothing. In \<open>add_audit_info\<close> the test on \<^verbatim>\<open>context\<close> fails for
  every value of the datatype above, none of which has an attribute \<^verbatim>\<open>user_id\<close>.
  \<^verbatim>\<open>JSONRenderer\<close> turns the dictionary into the message that the standard logger of the
  same name logs at \<^verbatim>\<open>INFO\<close>. Assigning to a key of a dictionary replaces the value in place
  or appends the key (\<open>AList.update\<close>).
\<close>

definition APP_NAME :: string where
  "APP_NAME = ''AI Medical Billing System''"

definition APP_VERSION :: string where
  "APP_VERSION = ''1.0.0''"

definition event_dict :: "string \<Rightarrow> pydict \<Rightarrow> pydict" where
  "event_dict event kw = AList.update ''event'' (PStr event) (fold (\<lambda>(k, v). AList.update k v) kw [])"

definition add_logger_name :: "string \<Rightarrow> pydict \<Rightarrow> pydict" where
  "add_logger_name name ev = AList.update ''logger'' (PStr name) ev"

definition add_log_level :: "string \<Rightarrow> pydict \<Rightarrow> pydict" where
  "add_log_level method_name ev = AList.update ''level'' (PStr method_name) ev"

definition TimeStamper :: "string \<Rightarrow> pydict \<Rightarrow> pydict" where
  "TimeStamper stamp ev = AList.update ''timestamp'' (PStr stamp) ev"

definition add_audit_info :: "datetime \<Rightarrow> pydict \<Rightarrow> pydict" where
  "add_audit_info now ev =
     AList.update ''version'' (PStr APP_VERSION)
       (AList.update ''application'' (PStr APP_NAME)
          (AList.update ''audit_timestamp'' (PStr (isoformat now)) ev))"

definition processors :: "string \<Rightarrow> string \<Rightarrow> datetime \<Rightarrow> pydict \<Rightarrow> pydict" where
  "processors name stamp now ev =
     add_audit_info now (TimeStamper stamp (add_log_level ''info'' (add_logger_name name ev)))"

definition structlog_info ::
  "library \<Rightarrow> string \<Rightarrow> string \<Rightarrow> datetime \<Rightarrow> string \<Rightarrow> string \<Rightarrow> pydict
     \<Rightarrow> (string \<times> string) list" where
  "structlog_info L name stamp now asctime event kw =
     logging_info asctime name
       (json_renderer L (PDict (processors name stamp now (event_dict event kw))))"

subsection \<open>\<^verbatim>\<open>HIPAACompliantLogger.audit\<close>\<close>

text \<open>
  \<^verbatim>\<open>
  def audit(self, event_type, details, user_id=None, ip_address=None, user_agent=None):
      audit_data = {
          'event_type': event_type,
          'details': sanitize_log_data(details),
          'user_id': user_id,
          'ip_address': ip_address,
          'user_agent': user_agent,
          'timestamp': datetime.utcnow().isoformat(),
          'logger_name': self.name
      }
      audit_logger = logging.getLogger('audit')
      audit_logger.info(f"AUDIT: {event_type}", extra=audit_data)
      self.logger.info(f"AUDIT: {event_type}", **audit_data)
  \<close>
  \<^verbatim>\<open>self.logger\<close> is \<^verbatim>\<open>get_logger(name)\<close>. A call reads the clock five times: for
  \<^verbatim>\<open>audit_data\<close>, for the record of the \<^verbatim>\<open>audit\<close> logger, for \<^verbatim>\<open>TimeStamper\<close>, for
  \<open>add_audit_info\<close> and for the record of the logger of the instance. The value of a call
  is what it persists: the lines appended to the log files, in order.
\<close>

record clock =
  utcnow_audit :: datetime
  asctime_audit :: string
  stamp_structlog :: string
  utcnow_info :: datetime
  asctime_logger :: string

definition audit_data ::
  "string \<Rightarrow> datetime \<Rightarrow> string \<Rightarrow> pydict \<Rightarrow> string option \<Rightarrow> string option \<Rightarrow> string option
     \<Rightarrow> pydict" where
  "audit_data name now event_type details user_id ip_address user_agent =
     [(''event_type'', PStr event_type),
      (''details'', PDict (sanitize_log_data details)),
      (''user_id'', opt_str user_id),
      (''ip_address'', opt_str ip_address),
      (''user_agent'', opt_str user_agent),
      (''timestamp'', PStr (isoformat now)),
      (''logger_name'', PStr name)]"

definition audit ::
  "library \<Rightarrow> string \<Rightarrow> clock \<Rightarrow> string \<Rightarrow> pydict \<Rightarrow> string option \<Rightarrow> string option
     \<Rightarrow> string option \<Rightarrow> (string \<times> string) list" where
  "audit L name clk event_type details user_id ip_address user_agent =
     (let d = audit_data name (utcnow_audit clk) event_type details user_id ip_address user_agent
      in logging_info (asctime_audit clk) ''audit'' (''AUDIT: '' @ event_type) @
         structlog_info L name (stamp_structlog clk) (utcnow_info clk) (asctime_logger clk)
           (''AUDIT: '' @ event_type) d)"


text \<open>
  \<^verbatim>\<open>
  def log_access(self, user_id: str, action: str, details: Optional[dict] = None):
      from app.models.audit import AuditLog
      audit_log = AuditLog(
          user_id=user_id,
          table_name=self.__tablename__,
          record_id=self.id,
          action=action,
          details=json.dumps(details) if details else None,
          ip_address=getattr(self, '_current_ip', None),
          user_agent=getattr(self, '_current_user_agent', None)
      )
      return audit_log
  \<close>
  \<^verbatim>\<open>AuditLog\<close> is a mapped class of \<^verbatim>\<open>app/models/audit.py\<close>; the record below holds the
  keyword arguments its constructor is given. \<open>log_access\<close> returns the object and adds it
  to no session: the call itself persists nothing.
\<close>

record AuditLog =
  al_user_id :: string
  al_table_name :: string
  al_record_id :: pyval
  al_action :: string
  al_details :: pyval
  al_ip_address :: pyval
  al_user_agent :: pyval

definition log_access ::
  "library \<Rightarrow> entity \<Rightarrow> string \<Rightarrow> string \<Rightarrow> pydict option \<Rightarrow> py_exception + AuditLog" where
  "log_access L e user_id action details =
     (case (case details of
              None \<Rightarrow> Inr PNone
            | Some d \<Rightarrow>
                if truthy (PDict d)
                then (case json_dumps L (PDict d) of
                        None \<Rightarrow> Inl (TypeError ''json.dumps'')
                      | Some js \<Rightarrow> Inr (PStr js))
                else Inr PNone) of
        Inl ex \<Rightarrow> Inl ex
      | Inr dumped \<Rightarrow>
          Inr \<lparr> al_user_id = user_id,
                al_table_name = tablename (cls e),
                al_record_id = getattr_default e ''id'',
                al_action = action,
                al_details = dumped,
                al_ip_address = getattr_default e ''_current_ip'',
                al_user_agent = getattr_default e ''_current_user_agent'' \<rparr>)"


text \<open>\<open>raises_named n res\<close>: the call ended in an exception whose class is named \<open>n\<close>.\<close>

definition raises_named :: "string \<Rightarrow> py_exception + 'a \<Rightarrow> bool" where
  "raises_named n res = (case res of Inl ex \<Rightarrow> exc_name ex = n | Inr _ \<Rightarrow> False)"

text \<open>A point in time, and the readings of the clock during one call of \<open>audit\<close>, on which
  the theorems on timestamps are instantiated.\<close>

definition demo_now :: datetime where
  "demo_now = \<lparr> year = 2024, month = 1, day = 15, hour = 9, minute = 30, second = 0,
                microsecond = 0 \<rparr>"


text \<open>\<open>stored c name\<close>: on the class \<open>c\<close>, assigning to \<open>name\<close> stores the value (the name is
  bound to a column, or to a method or constant that the assignment shadows).\<close>

definition stored :: "model_class \<Rightarrow> string \<Rightarrow> bool" where
  "stored c name \<longleftrightarrow> kind_of c name = Some Column \<or> kind_of c name = Some Plain"


definition holding :: "model_class \<Rightarrow> pydict \<Rightarrow> entity" where
  "holding c kvs = \<lparr> cls = c, attrs = map_of kvs \<rparr>"

definition result_attr :: "py_exception + entity \<Rightarrow> string \<Rightarrow> pyval option" where
  "result_attr res name = (case res of Inl _ \<Rightarrow> None | Inr e \<Rightarrow> attrs e name)"

text \<open>The entropy drawn while an attribute is assigned, for the concrete instances.\<close>

definition demo_entropy :: "string \<Rightarrow> string" where
  "demo_entropy name = ''iv-'' @ name"







section \<open>Properties\<close>

subsection \<open>Keys and the stand-in library\<close>

lemma Fernet_demo_key: "Fernet_key demo_key = Some ''0123456789abcdef0123456789abcdef''"
  by code_simp

lemma Fernet_twin_key: "Fernet_key twin_key = Some ''0123456789abcdef0123456789abcdef''"
  by code_simp

lemma Fernet_other_key: "Fernet_key other_key = Some ''fedcba9876543210fedcba9876543210''"
  by code_simp

lemma Fernet_default_key: "Fernet_key default_key = None"
  by code_simp

lemma Fernet_unpadded_key: "Fernet_key unpadded_key = None"
  by code_simp

lemma Fernet_key_length: "Fernet_key kb = Some k \<Longrightarrow> length k = 32"
  by (auto simp add: Fernet_key_def split: option.splits if_splits)

lemma demo_codec_libraries: "codec_libraries demo_library"
  by (simp add: codec_libraries_def demo_library_def)

lemma demo_encode [simp]: "str_encode demo_library s = Some s"
  by (simp add: demo_library_def)

lemma demo_decode [simp]: "bytes_decode demo_library b = Some b"
  by (simp add: demo_library_def)

lemma demo_keys_differ: "demo_key \<noteq> twin_key"
  by (simp add: demo_key_def twin_key_def)

subsection \<open>The codec\<close>

lemma encrypt_phi_empty [simp]: "encrypt_phi L key r (PStr []) = Inr (PStr [])"
  by (simp add: encrypt_phi_def)

lemma encrypt_phi_None [simp]: "encrypt_phi L key r PNone = Inr PNone"
  by (simp add: encrypt_phi_def)

lemma decrypt_phi_empty [simp]: "decrypt_phi L key (PStr []) = Inr (PStr [])"
  by (simp add: decrypt_phi_def)

lemma decrypt_phi_None [simp]: "decrypt_phi L key PNone = Inr PNone"
  by (simp add: decrypt_phi_def)

lemma encrypt_phi_str:
  "s \<noteq> [] \<Longrightarrow> encrypt_phi L key r (PStr s) =
     (case Option.bind (str_encode L key) (\<lambda>kb.
           Option.bind (Fernet_key kb) (\<lambda>k.
           Option.bind (str_encode L s) (\<lambda>b.
           bytes_decode L (fernet_encrypt L k r b)))) of
        Some t \<Rightarrow> Inr (PStr t)
      | None \<Rightarrow> Inl (ValueError ''Failed to encrypt sensitive data''))"
  by (simp add: encrypt_phi_def)

lemma decrypt_phi_str:
  "t \<noteq> [] \<Longrightarrow> decrypt_phi L key (PStr t) =
     (case Option.bind (str_encode L key) (\<lambda>kb.
           Option.bind (Fernet_key kb) (\<lambda>k.
           Option.bind (str_encode L t) (\<lambda>tb.
           Option.bind (fernet_decrypt L k tb) (\<lambda>b.
           bytes_decode L b)))) of
        Some s \<Rightarrow> Inr (PStr s)
      | None \<Rightarrow> Inl (ValueError ''Failed to decrypt sensitive data''))"
  by (simp add: decrypt_phi_def)

lemma decrypt_phi_raises:
  "decrypt_phi L key c = Inl ex \<Longrightarrow> ex = ValueError ''Failed to decrypt sensitive data''"
  by (auto simp add: decrypt_phi_def split: if_splits pyval.splits option.splits)

lemma encrypt_demo_Jane:
  "encrypt_phi demo_library demo_key r (PStr ''Jane'')
     = Inr (PStr ''gAAAAA0123456789abcdef0123456789abcdefJane'')"
  by (simp add: encrypt_phi_str Fernet_demo_key) (simp add: demo_library_def)

lemma decrypt_demo_Jane:
  "decrypt_phi demo_library demo_key (PStr ''gAAAAA0123456789abcdef0123456789abcdefJane'')
     = Inr (PStr ''Jane'')"
  by (simp add: decrypt_phi_str Fernet_demo_key) (simp add: demo_library_def)

text \<open>
  Claim C4, as the specification states it: for every plaintext string and the
  process-wide key, decrypting what \<open>encrypt_phi\<close> returns gives the string back. The key
  that \<^verbatim>\<open>app/config.py\<close> configures by default, and a key of the form \<^verbatim>\<open>setup_env.py\<close> writes
  to \<^verbatim>\<open>.env\<close>, are not what \<^verbatim>\<open>Fernet\<close> accepts: with either, \<open>encrypt_phi\<close> raises
  \<^verbatim>\<open>ValueError\<close> for the plaintext \<^verbatim>\<open>Jane\<close>, and there is no ciphertext to decrypt.
\<close>

theorem round_trip_fails_without_Fernet_key:
  "encrypt_phi demo_library default_key ''iv'' (PStr ''Jane'')
     = Inl (ValueError ''Failed to encrypt sensitive data'')
   \<and> encrypt_phi demo_library unpadded_key ''iv'' (PStr ''Jane'')
     = Inl (ValueError ''Failed to encrypt sensitive data'')
   \<and> (\<nexists>c. encrypt_phi demo_library default_key ''iv'' (PStr ''Jane'') = Inr c
            \<and> decrypt_phi demo_library default_key c = Inr (PStr ''Jane''))"
  by (simp add: encrypt_phi_str Fernet_default_key Fernet_unpadded_key)

text \<open>
  Claim C4, amended. Let the configured key encode to a key that \<^verbatim>\<open>Fernet\<close> accepts (the
  url-safe base64 form of 32 bytes), let the plaintext \<open>s\<close> be a string that \<^verbatim>\<open>encode()\<close>
  accepts, and let the libraries do their part (\<open>codec_libraries\<close>: decoding inverts
  encoding, a token is text, Fernet decrypts what it encrypted under the same key). Then
  \<open>encrypt_phi\<close> returns a ciphertext and \<open>decrypt_phi\<close> returns \<open>s\<close> for it. With a key that
  \<^verbatim>\<open>Fernet\<close> does not accept, \<open>encrypt_phi\<close> raises \<^verbatim>\<open>ValueError\<close> for every non-empty string.
  The empty string and \<^verbatim>\<open>None\<close> are returned by \<open>encrypt_phi\<close> as they are, whatever the
  library and the key, and \<open>decrypt_phi\<close> returns them as they are too.
\<close>

theorem round_trip_accepted_key:
  assumes "codec_libraries L"
    and "str_encode L key = Some kb" and "Fernet_key kb = Some k"
    and "str_encode L s = Some b"
  shows "(\<exists>c. encrypt_phi L key r (PStr s) = Inr c \<and> decrypt_phi L key c = Inr (PStr s))
    \<and> (str_encode L' key' = Some kb' \<and> Fernet_key kb' = None \<and> s' \<noteq> [] \<longrightarrow>
         encrypt_phi L' key' r' (PStr s') = Inl (ValueError ''Failed to encrypt sensitive data''))
    \<and> encrypt_phi L' key' r' (PStr '''') = Inr (PStr '''')
    \<and> encrypt_phi L' key' r' PNone = Inr PNone
    \<and> decrypt_phi L' key' (PStr '''') = Inr (PStr '''')
    \<and> decrypt_phi L' key' PNone = Inr PNone"
proof -
  have trip: "\<exists>c. encrypt_phi L key r (PStr s) = Inr c \<and> decrypt_phi L key c = Inr (PStr s)"
  proof (cases "s = []")
    case True
    then show ?thesis by simp
  next
    case False
    let ?tok = "fernet_encrypt L k r b"
    have len: "length k = 32" using assms(3) by (rule Fernet_key_length)
    with assms(1) obtain t where t: "bytes_decode L ?tok = Some t" "t \<noteq> []"
      "str_encode L t = Some ?tok"
      unfolding codec_libraries_def by blast
    from len assms(1) have dec: "fernet_decrypt L k ?tok = Some b"
      unfolding codec_libraries_def by blast
    from assms(1,4) have inv: "bytes_decode L b = Some s"
      unfolding codec_libraries_def by blast
    have "encrypt_phi L key r (PStr s) = Inr (PStr t)"
      using False assms(2,3,4) t(1) by (simp add: encrypt_phi_str)
    moreover have "decrypt_phi L key (PStr t) = Inr (PStr s)"
      using t(2,3) assms(2,3) dec inv by (simp add: decrypt_phi_str)
    ultimately show ?thesis by simp
  qed
  have rejected: "str_encode L' key' = Some kb' \<and> Fernet_key kb' = None \<and> s' \<noteq> [] \<longrightarrow>
         encrypt_phi L' key' r' (PStr s') = Inl (ValueError ''Failed to encrypt sensitive data'')"
    by (simp add: encrypt_phi_str)
  from trip rejected show ?thesis by simp
qed

theorem round_trip_accepted_key_witness:
  "codec_libraries demo_library
   \<and> str_encode demo_library demo_key = Some demo_key
   \<and> Fernet_key demo_key = Some ''0123456789abcdef0123456789abcdef''
   \<and> str_encode demo_library ''Jane'' = Some ''Jane''
   \<and> (\<exists>c. encrypt_phi demo_library demo_key ''iv'' (PStr ''Jane'') = Inr c
          \<and> decrypt_phi demo_library demo_key c = Inr (PStr ''Jane''))"
  using round_trip_accepted_key [OF demo_codec_libraries demo_encode Fernet_demo_key demo_encode,
      of "''iv''" "''Jane''"]
    demo_codec_libraries Fernet_demo_key
  by simp

text \<open>
  Claim C3, as the specification states it: decrypting under a key other than the one that
  encrypted, or decrypting a malformed ciphertext, raises a \<^verbatim>\<open>CryptoError\<close>, an error type
  of its own, for every pair of distinct keys. The source defines no such class:
  \<open>decrypt_phi\<close> turns every exception into the built-in \<^verbatim>\<open>ValueError\<close>. Below, a token made
  under \<open>demo_key\<close> is decrypted under \<open>other_key\<close>, and a string that is no token under
  \<open>demo_key\<close>: both raise \<^verbatim>\<open>ValueError\<close>. And two distinct key strings may stand for the same
  key: \<open>twin_key\<close> differs from \<open>demo_key\<close> in its last character and decodes to the same 32
  bytes, so that the token made under \<open>demo_key\<close> decrypts under \<open>twin_key\<close> and no error is
  raised at all.
\<close>

theorem key_isolation_not_CryptoError:
  "encrypt_phi demo_library demo_key ''iv'' (PStr ''Jane'')
     = Inr (PStr ''gAAAAA0123456789abcdef0123456789abcdefJane'')
   \<and> decrypt_phi demo_library other_key (PStr ''gAAAAA0123456789abcdef0123456789abcdefJane'')
     = Inl (ValueError ''Failed to decrypt sensitive data'')
   \<and> \<not> raises_named ''CryptoError''
        (decrypt_phi demo_library other_key
           (PStr ''gAAAAA0123456789abcdef0123456789abcdefJane''))
   \<and> \<not> raises_named ''CryptoError'' (decrypt_phi demo_library demo_key (PStr ''not-a-token''))
   \<and> demo_key \<noteq> twin_key
   \<and> decrypt_phi demo_library twin_key (PStr ''gAAAAA0123456789abcdef0123456789abcdefJane'')
     = Inr (PStr ''Jane'')"
proof -
  have other: "decrypt_phi demo_library other_key
      (PStr ''gAAAAA0123456789abcdef0123456789abcdefJane'')
     = Inl (ValueError ''Failed to decrypt sensitive data'')"
    by (simp add: decrypt_phi_str Fernet_other_key) (simp add: demo_library_def)
  have bad: "decrypt_phi demo_library demo_key (PStr ''not-a-token'')
     = Inl (ValueError ''Failed to decrypt sensitive data'')"
    by (simp add: decrypt_phi_str Fernet_demo_key) (simp add: demo_library_def)
  have twin: "decrypt_phi demo_library twin_key
      (PStr ''gAAAAA0123456789abcdef0123456789abcdefJane'') = Inr (PStr ''Jane'')"
    by (simp add: decrypt_phi_str Fernet_twin_key) (simp add: demo_library_def)
  from other bad twin encrypt_demo_Jane [of "''iv''"] demo_keys_differ show ?thesis
    by (simp add: raises_named_def)
qed

text \<open>
  Claim C3, amended. Every exception that \<open>decrypt_phi\<close> raises is
  \<^verbatim>\<open>ValueError("Failed to decrypt sensitive data")\<close>. It raises it for every non-empty
  ciphertext that does not decrypt under the configured key: when the key or the
  ciphertext does not encode, when \<^verbatim>\<open>Fernet\<close> does not accept the key, and when \<^verbatim>\<open>Fernet\<close>
  rejects the ciphertext under the key, be it malformed or made under another key. When
  \<open>decrypt_phi\<close> returns for a non-empty ciphertext, it returns the text of what \<^verbatim>\<open>Fernet\<close>
  decrypted under the configured key. Two key strings that decode to the same key bytes
  are one key: \<open>decrypt_phi\<close> does the same under both.
\<close>

theorem decrypt_phi_raises_ValueError:
  "(\<forall>ex. decrypt_phi L key c = Inl ex \<longrightarrow> ex = ValueError ''Failed to decrypt sensitive data'')
   \<and> (\<forall>t. t \<noteq> [] \<and>
           (\<forall>kb k tb. str_encode L key = Some kb \<and> Fernet_key kb = Some k \<and>
                       str_encode L t = Some tb \<longrightarrow> fernet_decrypt L k tb = None)
          \<longrightarrow> decrypt_phi L key (PStr t) = Inl (ValueError ''Failed to decrypt sensitive data''))
   \<and> (\<forall>t p. t \<noteq> [] \<and> decrypt_phi L key (PStr t) = Inr p \<longrightarrow>
          (\<exists>kb k tb m s. str_encode L key = Some kb \<and> Fernet_key kb = Some k \<and>
                          str_encode L t = Some tb \<and> fernet_decrypt L k tb = Some m \<and>
                          bytes_decode L m = Some s \<and> p = PStr s))
   \<and> (\<forall>key2 kb kb2. str_encode L key = Some kb \<and> str_encode L key2 = Some kb2 \<and>
                      Fernet_key kb = Fernet_key kb2
          \<longrightarrow> decrypt_phi L key2 c = decrypt_phi L key c)"
proof -
  have a: "\<forall>ex. decrypt_phi L key c = Inl ex \<longrightarrow> ex = ValueError ''Failed to decrypt sensitive data''"
    by (blast dest: decrypt_phi_raises)
  have b: "\<forall>t. t \<noteq> [] \<and>
           (\<forall>kb k tb. str_encode L key = Some kb \<and> Fernet_key kb = Some k \<and>
                       str_encode L t = Some tb \<longrightarrow> fernet_decrypt L k tb = None)
          \<longrightarrow> decrypt_phi L key (PStr t) = Inl (ValueError ''Failed to decrypt sensitive data'')"
    by (auto simp add: decrypt_phi_str split: option.splits bind_splits)
  have c: "\<forall>t p. t \<noteq> [] \<and> decrypt_phi L key (PStr t) = Inr p \<longrightarrow>
          (\<exists>kb k tb m s. str_encode L key = Some kb \<and> Fernet_key kb = Some k \<and>
                          str_encode L t = Some tb \<and> fernet_decrypt L k tb = Some m \<and>
                          bytes_decode L m = Some s \<and> p = PStr s)"
    by (auto simp add: decrypt_phi_str split: option.splits bind_splits)
  have d: "\<forall>key2 kb kb2. str_encode L key = Some kb \<and> str_encode L key2 = Some kb2 \<and>
                      Fernet_key kb = Fernet_key kb2
          \<longrightarrow> decrypt_phi L key2 c = decrypt_phi L key c"
    by (auto simp add: decrypt_phi_def split: pyval.splits)
  from a b c d show ?thesis by blast
qed

theorem decrypt_phi_raises_ValueError_witness:
  "decrypt_phi demo_library other_key (PStr ''gAAAAA0123456789abcdef0123456789abcdefJane'')
     = Inl (ValueError ''Failed to decrypt sensitive data'')
   \<and> decrypt_phi demo_library twin_key (PStr ''gAAAAA0123456789abcdef0123456789abcdefJane'')
     = decrypt_phi demo_library demo_key (PStr ''gAAAAA0123456789abcdef0123456789abcdefJane'')"
proof -
  let ?tok = "''gAAAAA0123456789abcdef0123456789abcdefJane''"
  have rej: "\<forall>kb k tb. str_encode demo_library other_key = Some kb \<and> Fernet_key kb = Some k \<and>
      str_encode demo_library ?tok = Some tb \<longrightarrow> fernet_decrypt demo_library k tb = None"
    by (auto simp add: Fernet_other_key) (simp add: demo_library_def)
  have same: "str_encode demo_library demo_key = Some demo_key
      \<and> str_encode demo_library twin_key = Some twin_key
      \<and> Fernet_key demo_key = Fernet_key twin_key"
    by (simp add: Fernet_demo_key Fernet_twin_key)
  from decrypt_phi_raises_ValueError [of demo_library other_key "PStr ?tok"] rej
  have "decrypt_phi demo_library other_key (PStr ?tok)
     = Inl (ValueError ''Failed to decrypt sensitive data'')"
    by blast
  moreover from decrypt_phi_raises_ValueError [of demo_library demo_key "PStr ?tok"] same
  have "decrypt_phi demo_library twin_key (PStr ?tok) = decrypt_phi demo_library demo_key (PStr ?tok)"
    by blast
  ultimately show ?thesis by simp
qed

subsection \<open>The encrypted-field descriptor\<close>

text \<open>
  Claim C9. For any entity and any encrypted-field descriptor, setting the attribute to
  \<^verbatim>\<open>None\<close> raises nothing and leaves \<^verbatim>\<open>None\<close> in the hidden slot, changing no other attribute;
  the attribute then reads as \<^verbatim>\<open>None\<close>; and setting it to \<^verbatim>\<open>None\<close> a second time raises
  nothing and leaves the entity as the first call left it.
\<close>

theorem null_set_idempotent:
  "\<exists>e1. EncryptedField_set L key r e f PNone = Inr e1
      \<and> cls e1 = cls e
      \<and> attrs e1 = (attrs e)(encrypted_field_name f \<mapsto> PNone)
      \<and> EncryptedField_get L key e1 f = Inr PNone
      \<and> EncryptedField_set L key r' e1 f PNone = Inr e1"
  by (simp add: EncryptedField_set_def EncryptedField_get_def store_def getattr_default_def)

text \<open>
  Claim C10. Setting an encrypted attribute to the empty string stores no ciphertext: the
  encrypt step returns the empty string as it is, whatever the library and the key, and the
  empty string is what the hidden slot then holds. Reading the attribute afterwards gives
  \<^verbatim>\<open>None\<close>, not the empty string.
\<close>

theorem empty_string_collapses:
  "encrypt_phi L key r (PStr (py_str L (PStr ''''))) = Inr (PStr '''')
   \<and> (\<exists>e1. EncryptedField_set L key r e f (PStr '''') = Inr e1
          \<and> cls e1 = cls e
          \<and> attrs e1 = (attrs e)(encrypted_field_name f \<mapsto> PStr '''')
          \<and> EncryptedField_get L key e1 f = Inr PNone)"
  by (simp add: EncryptedField_set_def EncryptedField_get_def store_def getattr_default_def
      py_str_def)

subsection \<open>Log sanitisation\<close>

lemma sanitize_items_map:
  "sanitize_items xs =
     map (\<lambda>item. case item of PDict m \<Rightarrow> PDict (sanitize_log_data m) | _ \<Rightarrow> item) xs"
  by (induction xs) simp_all

lemma sanitize_keys: "map fst (sanitize_log_data d) = map fst d"
  by (induction d) auto

lemma sanitize_nth:
  "i < length d \<Longrightarrow> d ! i = (k, v) \<Longrightarrow>
   sanitize_log_data d ! i =
     (k, if lower k \<in> set phi_fields then PStr ''[REDACTED]''
         else (case v of
                 PDict m \<Rightarrow> PDict (sanitize_log_data m)
               | PList xs \<Rightarrow> PList (sanitize_items xs)
               | _ \<Rightarrow> v))"
proof (induction d arbitrary: i)
  case Nil
  then show ?case by simp
next
  case (Cons p d)
  show ?case
  proof (cases i)
    case 0
    with Cons.prems show ?thesis by simp
  next
    case (Suc j)
    with Cons.prems have "j < length d" "d ! j = (k, v)" by simp_all
    from Cons.IH [OF this] Suc show ?thesis by (cases p) simp
  qed
qed

lemma sanitize_redacted:
  "phi_redacted (sanitize_log_data d)" and "phi_redacted_items (sanitize_items xs)"
  by (induction d and xs rule: sanitize_log_data_sanitize_items.induct)
     (auto split: pyval.splits)

lemma sanitize_example:
  "sanitize_log_data [(''ssn'', PStr ''123-45-6789''), (''note'', PStr ''see ssn above'')]
     = [(''ssn'', PStr ''[REDACTED]''), (''note'', PStr ''see ssn above'')]"
  by (simp add: lower_def lower_char_def phi_fields_def)

text \<open>
  Claim C5. For every mapping \<open>d\<close>, \<open>sanitize_log_data d\<close> has the keys of \<open>d\<close> in the same
  order. The entry of a key whose lower-cased name is on the deny-list holds the redaction
  marker. The entry of any other key holds: the sanitised mapping, when the value is a
  mapping; the list with each element that is a mapping sanitised and every other element
  as it was, when the value is a list; and the value itself otherwise. Hence every
  deny-listed key that the recursion reaches is redacted (\<open>phi_redacted\<close>). In particular
  \<^verbatim>\<open>{"ssn": "123-45-6789", "note": "see ssn above"}\<close> has its \<^verbatim>\<open>ssn\<close> redacted and its
  \<^verbatim>\<open>note\<close> untouched.
\<close>

theorem sanitize_log_data_by_field_name:
  "map fst (sanitize_log_data d) = map fst d
   \<and> (\<forall>i k v. i < length d \<and> d ! i = (k, v) \<longrightarrow>
        sanitize_log_data d ! i =
          (k, if lower k \<in> set phi_fields then PStr ''[REDACTED]''
              else (case v of
                      PDict m \<Rightarrow> PDict (sanitize_log_data m)
                    | PList xs \<Rightarrow>
                        PList (map (\<lambda>item. case item of
                                              PDict m \<Rightarrow> PDict (sanitize_log_data m)
                                            | _ \<Rightarrow> item) xs)
                    | _ \<Rightarrow> v)))
   \<and> phi_redacted (sanitize_log_data d)
   \<and> sanitize_log_data [(''ssn'', PStr ''123-45-6789''), (''note'', PStr ''see ssn above'')]
       = [(''ssn'', PStr ''[REDACTED]''), (''note'', PStr ''see ssn above'')]"
proof -
  have "\<forall>i k v. i < length d \<and> d ! i = (k, v) \<longrightarrow>
        sanitize_log_data d ! i =
          (k, if lower k \<in> set phi_fields then PStr ''[REDACTED]''
              else (case v of
                      PDict m \<Rightarrow> PDict (sanitize_log_data m)
                    | PList xs \<Rightarrow>
                        PList (map (\<lambda>item. case item of
                                              PDict m \<Rightarrow> PDict (sanitize_log_data m)
                                            | _ \<Rightarrow> item) xs)
                    | _ \<Rightarrow> v))"
    using sanitize_nth [of _ d] by (auto simp add: sanitize_items_map split: pyval.splits)
  then show ?thesis
    using sanitize_keys [of d] sanitize_redacted(1) [of d] sanitize_example by blast
qed

theorem sanitize_log_data_by_field_name_witness:
  "(1::nat) < length [(''SSN'', PStr ''123-45-6789''),
                      (''visit'', PDict [(''Email'', PStr ''jane@example.org''), (''room'', PInt 4)]),
                      (''note'', PStr ''see ssn above'')]
   \<and> sanitize_log_data
        [(''SSN'', PStr ''123-45-6789''),
         (''visit'', PDict [(''Email'', PStr ''jane@example.org''), (''room'', PInt 4)]),
         (''note'', PStr ''see ssn above'')] ! 1
       = (''visit'', PDict [(''Email'', PStr ''[REDACTED]''), (''room'', PInt 4)])"
  using sanitize_log_data_by_field_name
    [of "[(''SSN'', PStr ''123-45-6789''),
          (''visit'', PDict [(''Email'', PStr ''jane@example.org''), (''room'', PInt 4)]),
          (''note'', PStr ''see ssn above'')]"]
  by (simp add: lower_def lower_char_def phi_fields_def)

subsection \<open>Timestamps\<close>

lemma length_zpad [simp]: "length (zpad w n) = w"
  by (induction w n rule: zpad.induct) simp_all



subsection \<open>Audit events\<close>











text \<open>
  Claim C2. The specification has every path that stores or forwards the details of an
  audit event pass them through \<open>sanitize_log_data\<close> first, \<^verbatim>\<open>AuditMixin.log_access\<close>
  included. \<^verbatim>\<open>HIPAACompliantLogger.audit\<close> does so; \<^verbatim>\<open>log_access\<close> hands the details to
  \<^verbatim>\<open>json.dumps\<close> as they are. For the details \<^verbatim>\<open>{"ssn": "123-45-6789"}\<close>, which are not
  redacted, \<open>log_access\<close> serialises that very mapping, while \<open>audit_data\<close> holds the redacted
  one.
\<close>

theorem log_access_skips_sanitizer:
  "\<not> phi_redacted [(''ssn'', PStr ''123-45-6789'')]
   \<and> log_access L e ''u1'' ''view'' (Some [(''ssn'', PStr ''123-45-6789'')])
       = (case json_dumps L (PDict [(''ssn'', PStr ''123-45-6789'')]) of
            None \<Rightarrow> Inl (TypeError ''json.dumps'')
          | Some js \<Rightarrow>
              Inr \<lparr> al_user_id = ''u1'',
                    al_table_name = tablename (cls e),
                    al_record_id = getattr_default e ''id'',
                    al_action = ''view'',
                    al_details = PStr js,
                    al_ip_address = getattr_default e ''_current_ip'',
                    al_user_agent = getattr_default e ''_current_user_agent'' \<rparr>)
   \<and> map_of (audit_data name now ''view'' [(''ssn'', PStr ''123-45-6789'')] uid ip ua) ''details''
       = Some (PDict [(''ssn'', PStr ''[REDACTED]'')])"
  by (simp add: log_access_def audit_data_def lower_def lower_char_def phi_fields_def
      split: option.splits)

subsection \<open>Serialisation (\<open>to_dict\<close>)\<close>

lemma map_of_fold_update:
  "map_of (fold (\<lambda>c r. AList.update c (f c) r) cols acc) k =
     (if k \<in> set cols then Some (f k) else map_of acc k)"
  by (induction cols arbitrary: acc) (simp_all add: update_conv')

lemma redact_fields_absent:
  "\<forall>n \<in> set names. map_of result n = None \<Longrightarrow> redact_fields names result = result"
  unfolding redact_fields_def by (induction names) simp_all

lemma to_dict_lookup:
  "map_of (to_dict e True) k =
     (if k \<in> set (column_names (cls e)) then Some (column_value e k) else None)"
  by (simp add: to_dict_def map_of_fold_update)

lemma to_dict_no_redaction:
  assumes "\<forall>n \<in> set (case cls_phi_fields (cls e) of None \<Rightarrow> [] | Some fs \<Rightarrow> fs).
             n \<notin> set (column_names (cls e))"
  shows "to_dict e False = to_dict e True"
proof -
  let ?result = "fold (\<lambda>column result. AList.update column (column_value e column) result)
                      (column_names (cls e)) []"
  from assms have "\<forall>n \<in> set (case cls_phi_fields (cls e) of None \<Rightarrow> [] | Some fs \<Rightarrow> fs).
                     map_of ?result n = None"
    by (simp add: map_of_fold_update)
  then show ?thesis
    by (simp add: to_dict_def redact_fields_absent)
qed

lemma Patient_columns:
  "column_names Patient =
     [''medical_record_number'',
      ''first_name_encrypted'', ''last_name_encrypted'', ''middle_name_encrypted'',
      ''social_security_number_encrypted'', ''date_of_birth_encrypted'',
      ''gender'', ''marital_status'',
      ''phone_encrypted'', ''email_encrypted'', ''emergency_contact_encrypted'',
      ''emergency_phone_encrypted'',
      ''address_line_1_encrypted'', ''address_line_2_encrypted'', ''city_encrypted'',
      ''state_encrypted'', ''zip_code_encrypted'', ''country_encrypted'',
      ''preferred_language'', ''race'', ''ethnicity'',
      ''is_vip'', ''is_deceased'', ''deceased_date'',
      ''preferred_communication'', ''allow_sms'', ''allow_email'',
      ''financial_class'', ''credit_score'', ''payment_preference'',
      ''id'', ''created_at'', ''updated_at'', ''created_by'', ''updated_by'', ''is_active'',
      ''uuid'']"
  by (simp add: column_names_def Patient_def base_columns_def base_methods_def
      audit_mixin_methods_def)

lemma Patient_phi_not_columns:
  "\<forall>n \<in> set (case cls_phi_fields Patient of None \<Rightarrow> [] | Some fs \<Rightarrow> fs).
     n \<notin> set (column_names Patient)"
  unfolding Patient_columns by (simp add: Patient_def)

text \<open>
  Claim C1. For a \<^verbatim>\<open>Patient\<close> created with \<^verbatim>\<open>first_name="Jane"\<close>, the specification has
  \<^verbatim>\<open>to_dict(include_phi=False)\<close> map \<^verbatim>\<open>first_name\<close> to \<^verbatim>\<open>[REDACTED]\<close> and
  \<^verbatim>\<open>to_dict(include_phi=True)\<close> map it to \<^verbatim>\<open>Jane\<close>. The code serialises the columns of the
  table, which are the hidden slots (\<^verbatim>\<open>first_name_encrypted\<close>, ...), and redacts the names
  in \<^verbatim>\<open>_phi_fields\<close>, which are the logical names (\<^verbatim>\<open>first_name\<close>, ...): no name matches.
  So, whatever values the instance holds, both calls return the same mapping; it has no key
  \<^verbatim>\<open>first_name\<close>; and under the key \<^verbatim>\<open>first_name_encrypted\<close> it holds the content of the
  hidden slot, redacted in neither call.
\<close>

theorem Patient_to_dict_never_redacts:
  "to_dict \<lparr>cls = Patient, attrs = m\<rparr> False = to_dict \<lparr>cls = Patient, attrs = m\<rparr> True
   \<and> map_of (to_dict \<lparr>cls = Patient, attrs = m\<rparr> False) ''first_name'' = None
   \<and> map_of (to_dict \<lparr>cls = Patient, attrs = m\<rparr> True) ''first_name'' = None
   \<and> map_of (to_dict \<lparr>cls = Patient, attrs = m(''first_name_encrypted'' \<mapsto> PStr c)\<rparr> False)
        ''first_name_encrypted'' = Some (PStr c)"
proof -
  have same: "to_dict \<lparr>cls = Patient, attrs = m'\<rparr> False = to_dict \<lparr>cls = Patient, attrs = m'\<rparr> True"
    for m'
    using Patient_phi_not_columns by (intro to_dict_no_redaction) simp
  have absent: "map_of (to_dict \<lparr>cls = Patient, attrs = m\<rparr> True) ''first_name'' = None"
    by (simp add: to_dict_lookup Patient_columns)
  have slot: "map_of (to_dict \<lparr>cls = Patient, attrs = m(''first_name_encrypted'' \<mapsto> PStr c)\<rparr> True)
        ''first_name_encrypted'' = Some (PStr c)"
    by (simp add: to_dict_lookup Patient_columns column_value_def getattr_default_def)
  from same [of m] same [of "m(''first_name_encrypted'' \<mapsto> PStr c)"] absent slot
  show ?thesis by simp
qed

subsection \<open>Attribute assignment\<close>

lemma setattr_stored: "stored (cls e) name \<Longrightarrow> setattr L key r e name v = Inr (store e name v)"
  by (auto simp add: setattr_def stored_def)

lemma setattr_Computed:
  "kind_of (cls e) name = Some (Computed reads) \<Longrightarrow>
   setattr L key r e name v = Inl (AttributeError name)"
  by (simp add: setattr_def)

lemma cls_store [simp]: "cls (store e name v) = cls e"
  by (simp add: store_def)

lemma attrs_store [simp]: "attrs (store e name v) = (attrs e)(name \<mapsto> v)"
  by (simp add: store_def)

lemma touch_stored:
  assumes "stored (cls e) ''updated_at''" and "stored (cls e) ''updated_by''"
  shows "touch L key ent now user_id e =
     Inr (if truthy (opt_str user_id)
          then store (store e ''updated_at'' (PDateTime now)) ''updated_by'' (opt_str user_id)
          else store e ''updated_at'' (PDateTime now))"
  using assms by (simp add: touch_def setattr_stored)

lemma stored_Patient_base:
  "stored Patient ''is_active''" "stored Patient ''updated_at''" "stored Patient ''updated_by''"
  by (simp_all add: stored_def kind_of_def Patient_def base_columns_def)

subsection \<open>Soft delete\<close>

text \<open>
  Claim C7, as the specification states it: after \<^verbatim>\<open>soft_delete(actor)\<close> on any record,
  \<^verbatim>\<open>is_active\<close> is false and \<^verbatim>\<open>updated_by\<close> is the actor. Called without an actor on a
  patient last updated by \<^verbatim>\<open>alice\<close>, \<open>soft_delete\<close> leaves \<^verbatim>\<open>updated_by\<close> at \<^verbatim>\<open>alice\<close>
  (the assignment stands under \<^verbatim>\<open>if user_id\<close>), which is not the actor.
\<close>

theorem soft_delete_keeps_updated_by:
  "result_attr (soft_delete demo_library demo_key demo_entropy demo_now
                  (holding Patient [(''updated_by'', PStr ''alice'')]) None) ''updated_by''
     = Some (PStr ''alice'')
   \<and> opt_str None \<noteq> PStr ''alice''"
proof -
  have "result_attr (soft_delete demo_library demo_key demo_entropy demo_now
                  (holding Patient [(''updated_by'', PStr ''alice'')]) None) ''updated_by''
     = Some (PStr ''alice'')"
    using stored_Patient_base
    by (simp add: soft_delete_def holding_def setattr_stored touch_stored result_attr_def
        opt_str_def)
  then show ?thesis by (simp add: opt_str_def)
qed

text \<open>
  Claim C7, amended. On a record whose class keeps \<^verbatim>\<open>is_active\<close>, \<^verbatim>\<open>updated_at\<close> and
  \<^verbatim>\<open>updated_by\<close> as stored attributes (the columns of \<^verbatim>\<open>BaseModel\<close>), \<^verbatim>\<open>soft_delete(actor)\<close>
  returns without an exception; afterwards \<^verbatim>\<open>is_active\<close> is \<^verbatim>\<open>False\<close>, \<^verbatim>\<open>updated_at\<close> is the
  current time, \<^verbatim>\<open>updated_by\<close> is the actor when the actor is a non-empty string and keeps
  its previous value otherwise, and every other attribute, among them \<^verbatim>\<open>created_at\<close>,
  \<^verbatim>\<open>id\<close> and \<^verbatim>\<open>uuid\<close>, is unchanged: the record is not removed and keeps its identifiers.
\<close>

theorem soft_delete_frame:
  assumes "stored (cls e) ''is_active''" and "stored (cls e) ''updated_at''"
    and "stored (cls e) ''updated_by''"
  shows "\<exists>e'. soft_delete L key ent now e user_id = Inr e'
    \<and> cls e' = cls e
    \<and> attrs e' ''is_active'' = Some (PBool False)
    \<and> attrs e' ''updated_at'' = Some (PDateTime now)
    \<and> attrs e' ''updated_by'' =
        (if truthy (opt_str user_id) then Some (opt_str user_id) else attrs e ''updated_by'')
    \<and> (\<forall>n. n \<noteq> ''is_active'' \<and> n \<noteq> ''updated_at'' \<and> n \<noteq> ''updated_by'' \<longrightarrow>
          attrs e' n = attrs e n)
    \<and> attrs e' ''created_at'' = attrs e ''created_at''
    \<and> attrs e' ''id'' = attrs e ''id''
    \<and> attrs e' ''uuid'' = attrs e ''uuid''"
proof -
  let ?e1 = "store e ''is_active'' (PBool False)"
  have "soft_delete L key ent now e user_id = touch L key ent now user_id ?e1"
    using assms(1) by (simp add: soft_delete_def setattr_stored)
  also have "\<dots> = Inr (if truthy (opt_str user_id)
          then store (store ?e1 ''updated_at'' (PDateTime now)) ''updated_by'' (opt_str user_id)
          else store ?e1 ''updated_at'' (PDateTime now))"
    using assms(2,3) by (intro touch_stored) simp_all
  finally show ?thesis by simp
qed

theorem soft_delete_frame_witness:
  "stored Patient ''is_active'' \<and> stored Patient ''updated_at'' \<and> stored Patient ''updated_by''
   \<and> (\<exists>e'. soft_delete demo_library demo_key demo_entropy demo_now
              (holding Patient [(''id'', PInt 7), (''updated_by'', PStr ''alice'')]) (Some ''bob'')
            = Inr e'
          \<and> attrs e' ''is_active'' = Some (PBool False)
          \<and> attrs e' ''updated_by'' = Some (PStr ''bob'')
          \<and> attrs e' ''id'' = Some (PInt 7))"
proof -
  have c: "cls (holding Patient [(''id'', PInt 7), (''updated_by'', PStr ''alice'')]) = Patient"
    by (simp add: holding_def)
  have i: "attrs (holding Patient [(''id'', PInt 7), (''updated_by'', PStr ''alice'')]) ''id''
      = Some (PInt 7)"
    by (simp add: holding_def)
  from soft_delete_frame [of "holding Patient [(''id'', PInt 7), (''updated_by'', PStr ''alice'')]"
      demo_library demo_key demo_entropy demo_now "Some ''bob''"]
    stored_Patient_base c i
  show ?thesis by (auto simp add: opt_str_def)
qed

subsection \<open>Update from a mapping\<close>





lemma encrypted_field_name_inj [simp]:
  "encrypted_field_name k = encrypted_field_name k' \<longleftrightarrow> k = k'"
  by (simp add: encrypted_field_name_def)





















end
